theory Spec2Isabelle
  imports Main
begin

section \<open>JavaScript values used by the transaction module\<close>

text \<open>
  The module \<^verbatim>\<open>main/transaction/index.ts\<close> works on JavaScript strings and on optional
  properties of objects. A string is a HOL \<open>string\<close>, each \<open>char\<close> read as one code unit
  below 256; an optional property is a \<open>string option\<close>, where \<open>None\<close> is what a read
  of the property yields when the key is absent or holds \<^verbatim>\<open>undefined\<close>.
\<close>

definition truthy :: "string option \<Rightarrow> bool" where
  \<comment> \<open>JavaScript truthiness of a string-or-undefined value: \<^verbatim>\<open>!v\<close> is \<open>\<not> truthy v\<close>.\<close>
  "truthy v = (case v of None \<Rightarrow> False | Some s \<Rightarrow> s \<noteq> [])"

definition String :: "string option \<Rightarrow> string" where
  \<comment> \<open>The conversion that \<^verbatim>\<open>parseInt\<close> and \<^verbatim>\<open>BigNumber\<close> apply to their argument.\<close>
  "String v = (case v of None \<Rightarrow> ''undefined'' | Some s \<Rightarrow> s)"

definition digitValue :: "char \<Rightarrow> nat option" where
  "digitValue c =
     (let n = (of_char c :: nat) in
      if 48 \<le> n \<and> n \<le> 57 then Some (n - 48)
      else if 97 \<le> n \<and> n \<le> 102 then Some (n - 87)
      else if 65 \<le> n \<and> n \<le> 70 then Some (n - 55)
      else None)"

definition isDigit :: "nat \<Rightarrow> char \<Rightarrow> bool" where
  \<comment> \<open>\<open>isDigit r c\<close>: the character is a digit of radix \<open>r\<close> (\<open>r \<le> 16\<close>), in either case.\<close>
  "isDigit r c = (case digitValue c of None \<Rightarrow> False | Some d \<Rightarrow> d < r)"

definition digitsValue :: "nat \<Rightarrow> string \<Rightarrow> nat" where
  \<comment> \<open>The number a string of radix-\<open>r\<close> digits denotes, most significant digit first.\<close>
  "digitsValue r ds =
     foldl (\<lambda>acc c. acc * r + (case digitValue c of None \<Rightarrow> 0 | Some d \<Rightarrow> d)) 0 ds"

definition isWhiteSpace :: "char \<Rightarrow> bool" where
  \<comment> \<open>The white space and line terminator code units below 256:
      TAB, LF, VT, FF, CR, SP and NBSP.\<close>
  "isWhiteSpace c = ((of_char c :: nat) \<in> {9, 10, 11, 12, 13, 32, 160})"

text \<open>
  \<^verbatim>\<open>parseInt\<close> returns a double. The module hands the result to \<^verbatim>\<open>isNaN\<close> and uses it
  nowhere else, so the model keeps what that test reads: \<open>NaN\<close>, or \<open>NotNaN\<close> for every
  other result (the number of the digits rounded to a double, an infinity for a very
  long run of digits).
\<close>

datatype Number = NaN | NotNaN

definition parseInt :: "string option \<Rightarrow> nat \<Rightarrow> Number" where
  \<comment> \<open>\<^verbatim>\<open>parseInt(v, 16)\<close>, the only radix the module uses. Leading white space is
      skipped, then one sign, then (radix 16) one \<^verbatim>\<open>0x\<close> or \<^verbatim>\<open>0X\<close>; the result is
      \<^verbatim>\<open>NaN\<close> exactly when no digit of the radix follows.\<close>
  "parseInt v radix =
     (let s = dropWhile isWhiteSpace (String v);
          s = (if take 1 s = ''-'' \<or> take 1 s = ''+'' then drop 1 s else s);
          s = (if radix = 16 \<and> (take 2 s = ''0x'' \<or> take 2 s = ''0X'') then drop 2 s else s);
          z = takeWhile (isDigit radix) s
      in if z = [] then NaN else NotNaN)"

definition isNaN :: "Number \<Rightarrow> bool" where
  "isNaN x = (x = NaN)"

definition hexDigit :: "nat \<Rightarrow> char" where
  "hexDigit d = ''0123456789abcdef'' ! (d mod 16)"

fun toHex :: "nat \<Rightarrow> string" where
  "toHex n = (if n < 16 then [hexDigit n] else toHex (n div 16) @ [hexDigit (n mod 16)])"

declare toHex.simps [simp del]

definition toUpperCase :: "string \<Rightarrow> string" where
  "toUpperCase s =
     map (\<lambda>c. case map_of (zip ''abcdefghijklmnopqrstuvwxyz'' ''ABCDEFGHIJKLMNOPQRSTUVWXYZ'') c of
                 None \<Rightarrow> c
               | Some u \<Rightarrow> u) s"

definition toLowerCase :: "string \<Rightarrow> string" where
  "toLowerCase s =
     map (\<lambda>c. case map_of (zip ''ABCDEFGHIJKLMNOPQRSTUVWXYZ'' ''abcdefghijklmnopqrstuvwxyz'') c of
                 None \<Rightarrow> c
               | Some l \<Rightarrow> l) s"

text \<open>
  The case mappings act on the ASCII letters. The module compares their results with
  ASCII text only (\<^verbatim>\<open>'trezor one'\<close>, runs of hexadecimal digits), and no character outside
  ASCII is mapped onto a letter of those texts, so the other characters are left alone.
\<close>

subsection \<open>The library functions \<^verbatim>\<open>intToHex\<close> and \<^verbatim>\<open>addHexPrefix\<close>\<close>

definition intToHex :: "nat \<Rightarrow> string" where
  \<comment> \<open>\<^verbatim>\<open>'0x' + i.toString(16)\<close>; the module calls it with 0, 1 and 2 only.\<close>
  "intToHex i = ''0x'' @ toHex i"

definition isHexPrefixed :: "string \<Rightarrow> bool" where
  "isHexPrefixed str = (take 2 str = ''0x'')"

definition addHexPrefix :: "string \<Rightarrow> string" where
  "addHexPrefix str = (if isHexPrefixed str then str else ''0x'' @ str)"

subsection \<open>Arbitrary-precision numbers\<close>

text \<open>
  \<^verbatim>\<open>BigNumber(v)\<close> of \<^verbatim>\<open>bignumber.js\<close> reads the text \<^verbatim>\<open>String(v)\<close>. A text that is no
  plain decimal number is first stripped (\<^verbatim>\<open>/^\s*\+(?=[\w.])|^\s+|\s+$/g\<close>): leading
  white space together with one \<^verbatim>\<open>+\<close> that a word character or a point follows, or
  else leading white space alone, and trailing white space. What is left is read as
    \<^item> a decimal integer, \<^verbatim>\<open>-?[0-9]+\<close>, or
    \<^item> a literal \<^verbatim>\<open>-?0x\<close>, \<^verbatim>\<open>-?0b\<close> or \<^verbatim>\<open>-?0o\<close> (the prefix letter in either case)
      followed by digits of radix 16, 2 or 8; the library accepts hexadecimal letters of
      one case only, \<^verbatim>\<open>0xff\<close> and \<^verbatim>\<open>0xFF\<close> but not \<^verbatim>\<open>0xfF\<close>.
  Every other text is not a number for the library, with three exceptions that the
  model does not read and maps to \<open>BN_NaN\<close> as well: a text with a decimal point, a
  decimal text with an exponent part (\<^verbatim>\<open>1e9\<close>), and \<^verbatim>\<open>Infinity\<close>. The model is the
  library on all other texts. The theorems about numeric results ask for a \<open>BN\<close> value
  and so speak of the texts the model reads.
\<close>

datatype BigNumber = BN int | BN_NaN

definition isWordChar :: "char \<Rightarrow> bool" where
  \<comment> \<open>The class \<^verbatim>\<open>\w\<close>: letters, digits and the underscore.\<close>
  "isWordChar c =
     (let n = (of_char c :: nat) in
      (48 \<le> n \<and> n \<le> 57) \<or> (65 \<le> n \<and> n \<le> 90) \<or> (97 \<le> n \<and> n \<le> 122) \<or> n = 95)"

definition stripWhitespaceOrPlus :: "string \<Rightarrow> string" where
  \<comment> \<open>\<^verbatim>\<open>str.replace(whitespaceOrPlus, '')\<close>\<close>
  "stripWhitespaceOrPlus str =
     (let s = dropWhile isWhiteSpace str;
          s = (case s of
                 c # d # r \<Rightarrow>
                   if c = CHR ''+'' \<and> (isWordChar d \<or> d = CHR ''.'') then d # r else s
               | _ \<Rightarrow> s)
      in rev (dropWhile isWhiteSpace (rev s)))"

definition basePrefix :: "string \<Rightarrow> nat option" where
  \<comment> \<open>The radix a literal prefix announces.\<close>
  "basePrefix p =
     (if p = ''0x'' \<or> p = ''0X'' then Some 16
      else if p = ''0b'' \<or> p = ''0B'' then Some 2
      else if p = ''0o'' \<or> p = ''0O'' then Some 8
      else None)"

definition BigNumber :: "string option \<Rightarrow> BigNumber" where
  "BigNumber v =
     (let str = stripWhitespaceOrPlus (String v);
          negative = (take 1 str = ''-'');
          s = (if negative then drop 1 str else str);
          sign = (if negative then - 1 else 1);
          h = drop 2 s
      in if s \<noteq> [] \<and> list_all (isDigit 10) s then BN (sign * int (digitsValue 10 s))
         else
           (case basePrefix (take 2 s) of
              None \<Rightarrow> BN_NaN
            | Some base \<Rightarrow>
                if h \<noteq> [] \<and> list_all (isDigit base) h \<and> (h = toUpperCase h \<or> h = toLowerCase h)
                then BN (sign * int (digitsValue base h))
                else BN_NaN))"

definition plusBN :: "BigNumber \<Rightarrow> string option \<Rightarrow> BigNumber" where
  \<comment> \<open>\<^verbatim>\<open>x.plus(y)\<close>: the argument is read by \<open>BigNumber\<close> first.\<close>
  "plusBN x y =
     (case (x, BigNumber y) of
        (BN a, BN b) \<Rightarrow> BN (a + b)
      | _ \<Rightarrow> BN_NaN)"

definition toString :: "BigNumber \<Rightarrow> nat \<Rightarrow> string" where
  \<comment> \<open>\<^verbatim>\<open>x.toString(16)\<close>: lower-case digits without padding, a minus sign for a negative
      number, and the text \<^verbatim>\<open>NaN\<close> for not-a-number. Only radix 16 is used.\<close>
  "toString x radix =
     (case x of
        BN_NaN \<Rightarrow> ''NaN''
      | BN i \<Rightarrow> if i < 0 then ''-'' @ toHex (nat (- i)) else toHex (nat i))"

section \<open>The data model\<close>

text \<open>
  Modelled from the spec: the declarations of \<^verbatim>\<open>TransactionData\<close>, \<^verbatim>\<open>GasFeesSource\<close>,
  \<^verbatim>\<open>Gas\<close>, \<^verbatim>\<open>Common\<close>, \<^verbatim>\<open>AppVersion\<close>, \<^verbatim>\<open>SignerSummary\<close>, \<^verbatim>\<open>TransactionRequest\<close> and
  \<^verbatim>\<open>TxClassification\<close> live in modules the transaction module imports. The records below
  follow section 3 of the specification and the property reads of the code. A
  \<^verbatim>\<open>TransactionData\<close> may carry more properties than the ones named here; they are the
  extension part \<open>more\<close> of the record.
\<close>

datatype GasFeesSource = User | Dapp | Frame

record TransactionData =
  chainId :: string
  type :: string
  nonce :: "string option"
  to :: "string option"
  "value" :: "string option"
  data :: "string option"
  gasLimit :: "string option"
  gasPrice :: "string option"
  maxFeePerGas :: "string option"
  maxPriorityFeePerGas :: "string option"
  gasFeesSource :: GasFeesSource

record GasFees =
  maxBaseFeePerGas :: "string option"
  maxPriorityFeePerGas :: "string option"

record GasLevels =
  slow :: "string option"
  standard :: "string option"
  fast :: "string option"

record GasPrice =
  levels :: GasLevels
  fees :: "GasFees option"

record Gas =
  price :: GasPrice

record Common =
  isActivatedEIP :: "nat \<Rightarrow> bool"

section \<open>The type downgrade \<^verbatim>\<open>londonToLegacy\<close>\<close>

definition londonToLegacy :: "'a TransactionData_scheme \<Rightarrow> 'a TransactionData_scheme" where
  \<comment> \<open>The rest pattern drops \<^verbatim>\<open>type\<close>, \<^verbatim>\<open>maxFeePerGas\<close> and \<^verbatim>\<open>maxPriorityFeePerGas\<close>;
      the object literal puts \<^verbatim>\<open>type\<close> and \<^verbatim>\<open>gasPrice\<close> back.\<close>
  "londonToLegacy txData =
     (if TransactionData.type txData = ''0x2'' then
        txData\<lparr>TransactionData.type := ''0x0'',
               gasPrice := maxFeePerGas txData,
               maxFeePerGas := None,
               TransactionData.maxPriorityFeePerGas := None\<rparr>
      else txData)"

section \<open>Filling in the fee fields: \<^verbatim>\<open>populate\<close>\<close>

definition calculateMaxFeePerGas :: "string option \<Rightarrow> string option \<Rightarrow> string" where
  "calculateMaxFeePerGas maxBaseFee maxPriorityFee =
     (let maxFeePerGas = toString (plusBN (BigNumber maxPriorityFee) maxBaseFee) 16
      in addHexPrefix maxFeePerGas)"

text \<open>
  \<open>populate\<close> starts from a copy \<open>txData\<close> of \<open>rawTx\<close> and assigns to the copy. The guard
  \<^verbatim>\<open>!chainConfig.isActivatedEIP(1559) || !gas.price.fees\<close> is the \<open>None\<close> branch of the
  case distinction below; in the other branch \<open>gasFees\<close> is the object \<^verbatim>\<open>gas.price.fees\<close>.
  The priority fee handed to the fee arithmetic is \<^verbatim>\<open>rawTx.maxPriorityFeePerGas\<close> cast to
  a string, which may be \<^verbatim>\<open>undefined\<close> at run time; it stays a \<open>string option\<close>.
\<close>

definition populate ::
  "'a TransactionData_scheme \<Rightarrow> Common \<Rightarrow> Gas \<Rightarrow> 'a TransactionData_scheme" where
  "populate rawTx chainConfig gas =
     (let txData = rawTx in
      case (if isActivatedEIP chainConfig 1559 then fees (price gas) else None) of
        None \<Rightarrow>
          (let txData = txData\<lparr>TransactionData.type :=
                                 intToHex (if isActivatedEIP chainConfig 2930 then 1 else 0)\<rparr>;
               useFrameGasPrice =
                 (\<not> truthy (gasPrice rawTx) \<or> isNaN (parseInt (gasPrice rawTx) 16))
           in if useFrameGasPrice then
                (let gasPrice' = toString (BigNumber (fast (levels (price gas)))) 16;
                     txData = txData\<lparr>gasPrice := Some (addHexPrefix gasPrice')\<rparr>;
                     txData = txData\<lparr>gasFeesSource := Frame\<rparr>
                 in txData)
              else txData)
      | Some gasFees \<Rightarrow>
          (let txData = txData\<lparr>TransactionData.type := intToHex 2\<rparr>;
               useFrameMaxFeePerGas =
                 (\<not> truthy (maxFeePerGas rawTx) \<or> isNaN (parseInt (maxFeePerGas rawTx) 16));
               useFrameMaxPriorityFeePerGas =
                 (\<not> truthy (TransactionData.maxPriorityFeePerGas rawTx)
                  \<or> isNaN (parseInt (TransactionData.maxPriorityFeePerGas rawTx) 16))
           in if \<not> useFrameMaxFeePerGas \<and> \<not> useFrameMaxPriorityFeePerGas then txData
              else
                (let txData =
                       (if useFrameMaxFeePerGas \<and> useFrameMaxPriorityFeePerGas
                        then txData\<lparr>gasFeesSource := Frame\<rparr> else txData);
                     maxPriorityFee =
                       (if useFrameMaxPriorityFeePerGas
                           \<and> truthy (GasFees.maxPriorityFeePerGas gasFees)
                        then GasFees.maxPriorityFeePerGas gasFees
                        else TransactionData.maxPriorityFeePerGas rawTx);
                     txData = txData\<lparr>maxFeePerGas :=
                       (if useFrameMaxFeePerGas \<and> truthy (maxBaseFeePerGas gasFees)
                        then Some (calculateMaxFeePerGas (maxBaseFeePerGas gasFees) maxPriorityFee)
                        else maxFeePerGas txData)\<rparr>;
                     txData = txData\<lparr>TransactionData.maxPriorityFeePerGas :=
                       (if useFrameMaxPriorityFeePerGas
                        then Some (addHexPrefix (toString (BigNumber maxPriorityFee) 16))
                        else TransactionData.maxPriorityFeePerGas txData)\<rparr>
                 in txData)))"

subsection \<open>\<^verbatim>\<open>populate\<close> on a store of objects\<close>

text \<open>
  To speak about which object the assignments of \<open>populate\<close> change, the same function
  is written once more over a store: a list of objects, an object reference being an
  index into it. The spread \<^verbatim>\<open>{ ...rawTx }\<close> allocates a new object at the end of the
  store; every assignment of the source is an update of the store at the reference
  \<open>txData\<close>, every read of \<^verbatim>\<open>rawTx\<close> a read at the reference \<open>rawTx\<close>. A reference
  always points into the store, so \<open>rawTx < length h\<close> for every call that can occur.
\<close>

type_synonym 'a store = "'a TransactionData_scheme list"

definition populate_store ::
  "'a store \<Rightarrow> nat \<Rightarrow> Common \<Rightarrow> Gas \<Rightarrow> 'a store \<times> nat" where
  "populate_store h rawTx chainConfig gas =
     (let txData = length h;
          h = h @ [h ! rawTx] in
      case (if isActivatedEIP chainConfig 1559 then fees (price gas) else None) of
        None \<Rightarrow>
          (let h = h[txData := (h ! txData)\<lparr>TransactionData.type :=
                                 intToHex (if isActivatedEIP chainConfig 2930 then 1 else 0)\<rparr>];
               useFrameGasPrice =
                 (\<not> truthy (gasPrice (h ! rawTx)) \<or> isNaN (parseInt (gasPrice (h ! rawTx)) 16))
           in if useFrameGasPrice then
                (let gasPrice' = toString (BigNumber (fast (levels (price gas)))) 16;
                     h = h[txData := (h ! txData)\<lparr>gasPrice := Some (addHexPrefix gasPrice')\<rparr>];
                     h = h[txData := (h ! txData)\<lparr>gasFeesSource := Frame\<rparr>]
                 in (h, txData))
              else (h, txData))
      | Some gasFees \<Rightarrow>
          (let h = h[txData := (h ! txData)\<lparr>TransactionData.type := intToHex 2\<rparr>];
               useFrameMaxFeePerGas =
                 (\<not> truthy (maxFeePerGas (h ! rawTx))
                  \<or> isNaN (parseInt (maxFeePerGas (h ! rawTx)) 16));
               useFrameMaxPriorityFeePerGas =
                 (\<not> truthy (TransactionData.maxPriorityFeePerGas (h ! rawTx))
                  \<or> isNaN (parseInt (TransactionData.maxPriorityFeePerGas (h ! rawTx)) 16))
           in if \<not> useFrameMaxFeePerGas \<and> \<not> useFrameMaxPriorityFeePerGas then (h, txData)
              else
                (let h = (if useFrameMaxFeePerGas \<and> useFrameMaxPriorityFeePerGas
                          then h[txData := (h ! txData)\<lparr>gasFeesSource := Frame\<rparr>] else h);
                     maxPriorityFee =
                       (if useFrameMaxPriorityFeePerGas
                           \<and> truthy (GasFees.maxPriorityFeePerGas gasFees)
                        then GasFees.maxPriorityFeePerGas gasFees
                        else TransactionData.maxPriorityFeePerGas (h ! rawTx));
                     h = h[txData := (h ! txData)\<lparr>maxFeePerGas :=
                       (if useFrameMaxFeePerGas \<and> truthy (maxBaseFeePerGas gasFees)
                        then Some (calculateMaxFeePerGas (maxBaseFeePerGas gasFees) maxPriorityFee)
                        else maxFeePerGas (h ! txData))\<rparr>];
                     h = h[txData := (h ! txData)\<lparr>TransactionData.maxPriorityFeePerGas :=
                       (if useFrameMaxPriorityFeePerGas
                        then Some (addHexPrefix (toString (BigNumber maxPriorityFee) 16))
                        else TransactionData.maxPriorityFeePerGas (h ! txData))\<rparr>]
                 in (h, txData))))"

section \<open>Signer compatibility\<close>

text \<open>
  Modelled from the spec: \<^verbatim>\<open>AppVersion\<close> and \<^verbatim>\<open>SignerSummary\<close> are declared in the signer
  module. A version is three integers; a signer summary carries the tag of its signer
  kind, its version and an optional model name. \<^verbatim>\<open>SignerCompatibility\<close> is the interface
  of the transaction module itself.
\<close>

record AppVersion =
  major :: int
  minor :: int
  patch :: int

record SignerSummary =
  type :: string
  appVersion :: AppVersion
  model :: "string option"

datatype error = TypeError






section \<open>Classifying a request\<close>

text \<open>
  Modelled from the spec: \<^verbatim>\<open>TxClassification\<close> and \<^verbatim>\<open>TransactionRequest\<close> are declared in
  the accounts module. Of a request the classifier reads the parameter array of the
  payload, whose elements are transaction objects, and the recipient type.
\<close>

datatype TxClassification = CONTRACT_DEPLOY | CONTRACT_CALL | SEND_DATA | NATIVE_TRANSFER

record RPCRequestPayload =
  params :: "TransactionData list"

record TransactionRequest =
  payload :: RPCRequestPayload
  recipientType :: "string option"

text \<open>
  The parameter pattern of \<open>classifyTransaction\<close> destructures \<^verbatim>\<open>params[0]\<close>, which
  raises a \<^verbatim>\<open>TypeError\<close> when the array is empty. \<^verbatim>\<open>data\<close> defaults to \<^verbatim>\<open>'0x'\<close> when it
  is \<^verbatim>\<open>undefined\<close>. \<^verbatim>\<open>isNonZeroHex\<close> is imported from the utilities module and is a
  parameter here.
\<close>

definition classifyTransaction ::
  "(string \<Rightarrow> bool) \<Rightarrow> TransactionRequest \<Rightarrow> error + TxClassification" where
  "classifyTransaction isNonZeroHex request =
     (case params (payload request) of
        [] \<Rightarrow> Inl TypeError
      | p # _ \<Rightarrow>
          (let to' = to p;
               data' = (case data p of None \<Rightarrow> ''0x'' | Some d \<Rightarrow> d)
           in if \<not> truthy to' then Inr CONTRACT_DEPLOY
              else if recipientType request = Some ''external'' \<and> length data' > 2
                then Inr SEND_DATA
              else if isNonZeroHex data' \<and> recipientType request \<noteq> Some ''external''
                then Inr CONTRACT_CALL
              else Inr NATIVE_TRANSFER))"

section \<open>Notions used in the properties\<close>

text \<open>
  A fee field is missing when it is absent or does not parse as a hexadecimal integer.
  \<open>populate\<close> tests \<^verbatim>\<open>!v || isNaN(parseInt(v, 16))\<close>, which is the same (lemma
  \<open>missing_iff\<close>): the empty string is falsy and does not parse either.
\<close>

definition missing :: "string option \<Rightarrow> bool" where
  "missing v = (v = None \<or> parseInt v 16 = NaN)"

text \<open>
  The fee-market case of \<open>populate\<close>: the negation of the guard of its first branch.
\<close>

definition feeMarketActive :: "Common \<Rightarrow> Gas \<Rightarrow> bool" where
  "feeMarketActive chainConfig gas =
     (\<not> (\<not> isActivatedEIP chainConfig 1559 \<or> fees (price gas) = None))"

text \<open>
  A transaction is type-consistent when a fee-market type comes with no meaningful
  \<^verbatim>\<open>gasPrice\<close> and a legacy or access-list type with neither \<^verbatim>\<open>maxFeePerGas\<close> nor
  \<^verbatim>\<open>maxPriorityFeePerGas\<close>.
\<close>

definition typeConsistent :: "'a TransactionData_scheme \<Rightarrow> bool" where
  "typeConsistent t =
     ((TransactionData.type t = ''0x2'' \<longrightarrow> missing (gasPrice t))
      \<and> (TransactionData.type t = ''0x0'' \<or> TransactionData.type t = ''0x1'' \<longrightarrow>
           maxFeePerGas t = None \<and> TransactionData.maxPriorityFeePerGas t = None))"

subsection \<open>Sample inputs\<close>

text \<open>
  Chains with the London, the Berlin and the Frontier rules, a snapshot with and one
  without a fee estimate, a snapshot whose texts carry white space, a plus sign and a
  binary literal, three requests (one without fee fields, one with a gas price
  and one with both fee-market fields), signers of the kinds of the table and of
  another kind, instances of the two imported predicates, and classification requests
  built from a recipient, a payload and a recipient type.
\<close>

abbreviation londonConfig :: Common where
  "londonConfig \<equiv> \<lparr>isActivatedEIP = (\<lambda>eip. eip = 1559 \<or> eip = 2930)\<rparr>"

abbreviation berlinConfig :: Common where
  "berlinConfig \<equiv> \<lparr>isActivatedEIP = (\<lambda>eip. eip = 2930)\<rparr>"

abbreviation gasWithFees :: Gas where
  "gasWithFees \<equiv>
     \<lparr>price = \<lparr>levels = \<lparr>slow = Some ''0x10'', standard = Some ''0x20'', fast = Some ''0x3B''\<rparr>,
               fees = Some \<lparr>maxBaseFeePerGas = Some ''0x12a'',
                            maxPriorityFeePerGas = Some ''100''\<rparr>\<rparr>\<rparr>"

abbreviation gasWithoutFees :: Gas where
  "gasWithoutFees \<equiv>
     \<lparr>price = \<lparr>levels = \<lparr>slow = Some ''0x10'', standard = Some ''0x20'', fast = Some ''0x3B''\<rparr>,
               fees = None\<rparr>\<rparr>"


abbreviation bareTx :: TransactionData where
  "bareTx \<equiv>
     \<lparr>chainId = ''0x1'', type = ''0x0'', nonce = Some ''0x7'', to = Some ''0xabc'',
      value = Some ''0x1'', data = None, gasLimit = Some ''0x5208'', gasPrice = None,
      maxFeePerGas = None, maxPriorityFeePerGas = None, gasFeesSource = Dapp\<rparr>"

abbreviation legacyTx :: TransactionData where
  "legacyTx \<equiv>
     \<lparr>chainId = ''0x1'', type = ''0x0'', nonce = Some ''0x7'', to = Some ''0xabc'',
      value = Some ''0x1'', data = None, gasLimit = Some ''0x5208'', gasPrice = Some ''0x64'',
      maxFeePerGas = None, maxPriorityFeePerGas = None, gasFeesSource = Dapp\<rparr>"

abbreviation feeMarketTx :: TransactionData where
  "feeMarketTx \<equiv>
     \<lparr>chainId = ''0x1'', type = ''0x0'', nonce = Some ''0x7'', to = Some ''0xabc'',
      value = Some ''0x1'', data = None, gasLimit = Some ''0x5208'', gasPrice = None,
      maxFeePerGas = Some ''0x64'', maxPriorityFeePerGas = Some ''0x5'', gasFeesSource = Dapp\<rparr>"

abbreviation frontierConfig :: Common where
  "frontierConfig \<equiv> \<lparr>isActivatedEIP = (\<lambda>eip. False)\<rparr>"





abbreviation nonZeroHex :: "string \<Rightarrow> bool" where
  "nonZeroHex \<equiv> (\<lambda>hex. hex \<noteq> [] \<and> hex \<noteq> ''0x'' \<and> hex \<noteq> ''0x0'')"

abbreviation sampleRequest :: "string option \<Rightarrow> string option \<Rightarrow> string \<Rightarrow> TransactionRequest" where
  "sampleRequest t d r \<equiv>
     \<lparr>payload = \<lparr>params = [bareTx\<lparr>to := t, data := d\<rparr>]\<rparr>, recipientType = Some r\<rparr>"

section \<open>Hexadecimal text\<close>

lemma toHex_small: "n < 16 \<Longrightarrow> toHex n = [hexDigit n]"
  by (simp add: toHex.simps)

lemma intToHex_0: "intToHex 0 = ''0x0''"
  by (simp add: intToHex_def toHex_small hexDigit_def)

lemma intToHex_1: "intToHex 1 = ''0x1''"
  by (simp add: intToHex_def toHex_small hexDigit_def)

lemma intToHex_2: "intToHex 2 = ''0x2''"
  by (simp add: intToHex_def toHex_small hexDigit_def)

lemma hexDigit_in: "hexDigit d \<in> set ''0123456789abcdef''"
proof -
  have "d mod 16 < length ''0123456789abcdef''" by simp
  then show ?thesis unfolding hexDigit_def by (rule nth_mem)
qed


lemma toHex_not_Nil: "toHex n \<noteq> []"
  by (subst toHex.simps) simp



lemma digitValue_table:
  "\<forall>m \<in> set [0..<16]. digitValue (''0123456789abcdef'' ! m) = Some m"
  by code_simp

lemma digitValue_hexDigit: "digitValue (hexDigit d) = Some (d mod 16)"
proof -
  have "d mod 16 \<in> set [0..<16]" by simp
  then show ?thesis
    unfolding hexDigit_def using digitValue_table by blast
qed

lemma isDigit_hexDigit: "isDigit 16 (hexDigit d)"
  by (simp add: isDigit_def digitValue_hexDigit)

lemma digitsValue_snoc:
  "digitsValue r (ds @ [c]) = digitsValue r ds * r + (case digitValue c of None \<Rightarrow> 0 | Some d \<Rightarrow> d)"
  by (simp add: digitsValue_def)

lemma digitsValue_toHex: "digitsValue 16 (toHex n) = n"
proof (induction n rule: toHex.induct)
  case (1 n)
  show ?case
  proof (cases "n < 16")
    case True
    then show ?thesis
      by (simp add: toHex_small digitsValue_def digitValue_hexDigit)
  next
    case False
    then have "toHex n = toHex (n div 16) @ [hexDigit (n mod 16)]"
      by (subst toHex.simps) simp
    then show ?thesis using 1 False
      by (simp add: digitsValue_snoc digitValue_hexDigit)
  qed
qed

lemma toHex_all_digits: "list_all (isDigit 16) (toHex n)"
proof (induction n rule: toHex.induct)
  case (1 n)
  show ?case
  proof (cases "n < 16")
    case True
    then show ?thesis by (simp add: toHex_small isDigit_hexDigit)
  next
    case False
    then have "toHex n = toHex (n div 16) @ [hexDigit (n mod 16)]"
      by (subst toHex.simps) simp
    then show ?thesis using 1 False by (simp add: isDigit_hexDigit)
  qed
qed

text \<open>
  The digits \<open>toHex\<close> writes denote the number they were written for
  (\<open>digitsValue_toHex\<close>), and the text \<open>populate\<close> writes for a number is a valid
  hexadecimal fee field.
\<close>

lemma parseInt_0x_toHex: "parseInt (Some (''0x'' @ toHex n)) 16 = NotNaN"
proof -
  have tw: "takeWhile (isDigit 16) (toHex n) = toHex n"
    using toHex_all_digits [of n] by (simp add: list_all_iff)
  show ?thesis
    by (simp add: parseInt_def String_def isWhiteSpace_def Let_def tw toHex_not_Nil)
qed

lemma parseInt_empty: "parseInt (Some []) 16 = NaN"
  by (simp add: parseInt_def String_def)

lemma missing_iff: "missing v \<longleftrightarrow> (\<not> truthy v \<or> isNaN (parseInt v 16))"
  by (cases v) (auto simp: missing_def truthy_def isNaN_def parseInt_empty)

lemmas js_eval = missing_def parseInt_def String_def isWhiteSpace_def isDigit_def
  digitValue_def digitsValue_def isNaN_def truthy_def Let_def

lemmas bn_eval = BigNumber_def stripWhitespaceOrPlus_def basePrefix_def isWordChar_def
  toUpperCase_def toLowerCase_def js_eval




text \<open>
  \<open>BigNumber\<close> reads the canonical hexadecimal text of every number as that number.
\<close>

lemma hexDigit_plain:
  "\<not> isWhiteSpace (hexDigit d) \<and> toLowerCase [hexDigit d] = [hexDigit d]
   \<and> hexDigit d \<noteq> CHR ''+'' \<and> hexDigit d \<noteq> CHR ''-''"
proof -
  have "\<forall>c \<in> set ''0123456789abcdef''.
          \<not> isWhiteSpace c \<and> toLowerCase [c] = [c] \<and> c \<noteq> CHR ''+'' \<and> c \<noteq> CHR ''-''"
    by (simp add: isWhiteSpace_def toLowerCase_def)
  then show ?thesis using hexDigit_in [of d] by blast
qed

lemma toLowerCase_append: "toLowerCase (xs @ ys) = toLowerCase xs @ toLowerCase ys"
  by (simp add: toLowerCase_def)

lemma toLowerCase_toHex: "toLowerCase (toHex n) = toHex n"
proof (induction n rule: toHex.induct)
  case (1 n)
  show ?case
  proof (cases "n < 16")
    case True
    then show ?thesis by (simp add: toHex_small hexDigit_plain)
  next
    case False
    then have e: "toHex n = toHex (n div 16) @ [hexDigit (n mod 16)]"
      by (subst toHex.simps) simp
    show ?thesis using 1 False
      by (subst (1 2) e) (simp add: toLowerCase_append hexDigit_plain)
  qed
qed

lemma toHex_last: "\<exists>ds d. toHex n = ds @ [hexDigit d]"
proof (cases "n < 16")
  case True
  then have "toHex n = [] @ [hexDigit n]" by (simp add: toHex_small)
  then show ?thesis by blast
next
  case False
  then have "toHex n = toHex (n div 16) @ [hexDigit (n mod 16)]"
    by (subst toHex.simps) simp
  then show ?thesis by blast
qed

lemma strip_0x_toHex: "stripWhitespaceOrPlus (''0x'' @ toHex n) = ''0x'' @ toHex n"
proof -
  obtain ds d where e: "toHex n = ds @ [hexDigit d]" using toHex_last by blast
  have z: "\<not> isWhiteSpace CHR ''0''" by (simp add: isWhiteSpace_def)
  have w: "\<not> isWhiteSpace (hexDigit d)" by (simp add: hexDigit_plain)
  show ?thesis
    by (simp add: stripWhitespaceOrPlus_def e z w)
qed

lemma BigNumber_0x_toHex: "BigNumber (Some (''0x'' @ toHex n)) = BN (int n)"
proof -
  let ?s = "''0x'' @ toHex n"
  have x: "\<not> isDigit 10 CHR ''x''" by (simp add: isDigit_def digitValue_def)
  have str: "stripWhitespaceOrPlus (String (Some ?s)) = ?s"
    using strip_0x_toHex [of n] by (simp add: String_def)
  have neg: "take 1 ?s \<noteq> ''-''" by simp
  have dec: "\<not> list_all (isDigit 10) ?s" using x by simp
  have pre: "basePrefix (take 2 ?s) = Some 16" by (simp add: basePrefix_def)
  have h: "drop 2 ?s = toHex n" by simp
  show ?thesis
    unfolding BigNumber_def str Let_def
    using neg dec
    by (simp only: if_False if_True pre h option.case toHex_not_Nil toHex_all_digits
        toLowerCase_toHex digitsValue_toHex simp_thms not_False_eq_True) simp
qed

subsection \<open>Evaluating the sample inputs\<close>

lemma fast_value: "BigNumber (Some ''0x3B'') = BN (int 59)"
  by (simp add: bn_eval)

lemma priority_value: "BigNumber (Some ''100'') = BN (int 100)"
  by (simp add: bn_eval)

lemma base_value: "BigNumber (Some ''0x12a'') = BN (int 298)"
  by (simp add: bn_eval)




lemma toHex_59: "toHex 59 = ''3b''"
  by (simp add: toHex.simps hexDigit_def)

lemma toHex_100: "toHex 100 = ''64''"
  by (simp add: toHex.simps hexDigit_def)

lemma toHex_398: "toHex 398 = ''18e''"
  by (simp add: toHex.simps hexDigit_def)



lemma valid_0x64: "\<not> missing (Some ''0x64'')" by (simp add: js_eval)

lemma valid_0x5: "\<not> missing (Some ''0x5'')" by (simp add: js_eval)

lemma valid_0x18e: "\<not> missing (Some ''0x18e'')" by (simp add: js_eval)

lemma valid_0x3b: "\<not> missing (Some ''0x3b'')" by (simp add: js_eval)

section \<open>The two cases of \<^verbatim>\<open>populate\<close>\<close>

text \<open>
  In each case \<open>populate\<close> is one record update of its argument.
\<close>

lemma populate_legacy:
  assumes "\<not> isActivatedEIP chainConfig 1559 \<or> fees (price gas) = None"
  shows "populate rawTx chainConfig gas =
     (if missing (gasPrice rawTx) then
        rawTx\<lparr>TransactionData.type := (if isActivatedEIP chainConfig 2930 then ''0x1'' else ''0x0''),
              gasPrice := Some (addHexPrefix (toString (BigNumber (fast (levels (price gas)))) 16)),
              gasFeesSource := Frame\<rparr>
      else rawTx\<lparr>TransactionData.type := (if isActivatedEIP chainConfig 2930 then ''0x1'' else ''0x0'')\<rparr>)"
proof -
  have c: "(if isActivatedEIP chainConfig 1559 then fees (price gas) else None) = None"
    using assms by auto
  show ?thesis
    unfolding populate_def c
    by (simp add: Let_def missing_iff intToHex_0 intToHex_1 flip: One_nat_def)
qed

lemma populate_london:
  assumes "isActivatedEIP chainConfig 1559" and "fees (price gas) = Some gasFees"
  shows "populate rawTx chainConfig gas =
     (if \<not> missing (maxFeePerGas rawTx) \<and> \<not> missing (TransactionData.maxPriorityFeePerGas rawTx)
      then rawTx\<lparr>TransactionData.type := ''0x2''\<rparr>
      else
        (let maxPriorityFee =
               (if missing (TransactionData.maxPriorityFeePerGas rawTx)
                   \<and> truthy (GasFees.maxPriorityFeePerGas gasFees)
                then GasFees.maxPriorityFeePerGas gasFees
                else TransactionData.maxPriorityFeePerGas rawTx)
         in rawTx\<lparr>TransactionData.type := ''0x2'',
              gasFeesSource :=
                (if missing (maxFeePerGas rawTx) \<and> missing (TransactionData.maxPriorityFeePerGas rawTx)
                 then Frame else gasFeesSource rawTx),
              maxFeePerGas :=
                (if missing (maxFeePerGas rawTx) \<and> truthy (maxBaseFeePerGas gasFees)
                 then Some (calculateMaxFeePerGas (maxBaseFeePerGas gasFees) maxPriorityFee)
                 else maxFeePerGas rawTx),
              TransactionData.maxPriorityFeePerGas :=
                (if missing (TransactionData.maxPriorityFeePerGas rawTx)
                 then Some (addHexPrefix (toString (BigNumber maxPriorityFee) 16))
                 else TransactionData.maxPriorityFeePerGas rawTx)\<rparr>))"
proof -
  have c: "(if isActivatedEIP chainConfig 1559 then fees (price gas) else None) = Some gasFees"
    using assms by simp
  show ?thesis
    unfolding populate_def c
    by (simp add: Let_def missing_iff intToHex_2)
qed

lemma populate_type:
  "TransactionData.type (populate rawTx chainConfig gas) =
     (if feeMarketActive chainConfig gas then ''0x2''
      else if isActivatedEIP chainConfig 2930 then ''0x1'' else ''0x0'')"
proof (cases "feeMarketActive chainConfig gas")
  case True
  then obtain gasFees where a: "isActivatedEIP chainConfig 1559"
    and f: "fees (price gas) = Some gasFees"
    by (auto simp: feeMarketActive_def)
  show ?thesis using True by (simp add: populate_london [OF a f] Let_def)
next
  case False
  then have l: "\<not> isActivatedEIP chainConfig 1559 \<or> fees (price gas) = None"
    by (simp add: feeMarketActive_def)
  show ?thesis using False by (simp add: populate_legacy [OF l])
qed

lemma populate_gasPrice_london:
  assumes "feeMarketActive chainConfig gas"
  shows "gasPrice (populate rawTx chainConfig gas) = gasPrice rawTx"
proof -
  from assms obtain gasFees where a: "isActivatedEIP chainConfig 1559"
    and f: "fees (price gas) = Some gasFees"
    by (auto simp: feeMarketActive_def)
  show ?thesis by (simp add: populate_london [OF a f] Let_def)
qed

lemma update_type_same:
  "TransactionData.type r = t \<Longrightarrow> r\<lparr>TransactionData.type := t\<rparr> = r"
  by (cases r) simp

lemma populate_bareTx_london:
  "populate bareTx londonConfig gasWithFees =
     \<lparr>chainId = ''0x1'', type = ''0x2'', nonce = Some ''0x7'', to = Some ''0xabc'',
      value = Some ''0x1'', data = None, gasLimit = Some ''0x5208'', gasPrice = None,
      maxFeePerGas = Some ''0x18e'', maxPriorityFeePerGas = Some ''0x64'',
      gasFeesSource = Frame\<rparr>"
proof -
  have a: "isActivatedEIP londonConfig 1559" by simp
  have f: "fees (price gasWithFees)
      = Some \<lparr>maxBaseFeePerGas = Some ''0x12a'', maxPriorityFeePerGas = Some ''100''\<rparr>" by simp
  have m: "missing None" by (simp add: missing_def)
  show ?thesis
    by (simp add: populate_london [OF a f] m truthy_def calculateMaxFeePerGas_def plusBN_def
        priority_value base_value toString_def addHexPrefix_def isHexPrefixed_def
        toHex_100 toHex_398)
qed

lemma populate_bareTx_berlin:
  "populate bareTx berlinConfig gasWithFees =
     \<lparr>chainId = ''0x1'', type = ''0x1'', nonce = Some ''0x7'', to = Some ''0xabc'',
      value = Some ''0x1'', data = None, gasLimit = Some ''0x5208'', gasPrice = Some ''0x3b'',
      maxFeePerGas = None, maxPriorityFeePerGas = None, gasFeesSource = Frame\<rparr>"
proof -
  have l: "\<not> isActivatedEIP berlinConfig 1559 \<or> fees (price gasWithFees) = None" by simp
  have m: "missing None" by (simp add: missing_def)
  show ?thesis
    by (simp add: populate_legacy [OF l] m fast_value toString_def addHexPrefix_def
        isHexPrefixed_def toHex_59)
qed

section \<open>Properties of \<^verbatim>\<open>populate\<close>\<close>

subsection \<open>Both fee-market fields supplied by the dapp\<close>

text \<open>
  C1 as stated fails. On a chain with EIP-1559 active and a snapshot with a fee
  estimate, a request of type \<^verbatim>\<open>'0x0'\<close> whose \<^verbatim>\<open>maxFeePerGas\<close> and
  \<^verbatim>\<open>maxPriorityFeePerGas\<close> are both valid hexadecimal comes back with type \<^verbatim>\<open>'0x2'\<close>:
  the assignment \<^verbatim>\<open>txData.type = intToHex(2)\<close> precedes the early return.
\<close>

theorem populate_valid_fees_unchanged_counterexample:
  "isActivatedEIP londonConfig 1559 \<and> fees (price gasWithFees) \<noteq> None
   \<and> \<not> missing (maxFeePerGas feeMarketTx)
   \<and> \<not> missing (TransactionData.maxPriorityFeePerGas feeMarketTx)
   \<and> TransactionData.type feeMarketTx = ''0x0''
   \<and> TransactionData.type (populate feeMarketTx londonConfig gasWithFees) = ''0x2''
   \<and> populate feeMarketTx londonConfig gasWithFees \<noteq> feeMarketTx"
proof -
  have a: "isActivatedEIP londonConfig 1559" by simp
  have f: "fees (price gasWithFees)
      = Some \<lparr>maxBaseFeePerGas = Some ''0x12a'', maxPriorityFeePerGas = Some ''100''\<rparr>" by simp
  have "populate feeMarketTx londonConfig gasWithFees = feeMarketTx\<lparr>TransactionData.type := ''0x2''\<rparr>"
    by (simp add: populate_london [OF a f] valid_0x64 valid_0x5)
  then show ?thesis by (simp add: valid_0x64 valid_0x5)
qed

text \<open>
  C1, amended. On a chain with EIP-1559 active and a snapshot with a fee estimate, if
  \<^verbatim>\<open>maxFeePerGas\<close> and \<^verbatim>\<open>maxPriorityFeePerGas\<close> of the request are both valid
  hexadecimal integers, \<open>populate\<close> returns the request with \<^verbatim>\<open>type\<close> set to \<^verbatim>\<open>'0x2'\<close>
  and every other field, \<^verbatim>\<open>gasFeesSource\<close> included, as in the input.
\<close>

theorem populate_valid_fees_sets_type:
  assumes "isActivatedEIP chainConfig 1559" and "fees (price gas) \<noteq> None"
    and "\<not> missing (maxFeePerGas rawTx)"
    and "\<not> missing (TransactionData.maxPriorityFeePerGas rawTx)"
  shows "populate rawTx chainConfig gas = rawTx\<lparr>TransactionData.type := ''0x2''\<rparr>"
proof -
  from assms(2) obtain gasFees where f: "fees (price gas) = Some gasFees" by auto
  show ?thesis using assms(3,4) by (simp add: populate_london [OF assms(1) f])
qed

theorem populate_valid_fees_sets_type_witness:
  "isActivatedEIP londonConfig 1559 \<and> fees (price gasWithFees) \<noteq> None
   \<and> \<not> missing (maxFeePerGas feeMarketTx)
   \<and> \<not> missing (TransactionData.maxPriorityFeePerGas feeMarketTx)
   \<and> populate feeMarketTx londonConfig gasWithFees
       = feeMarketTx\<lparr>TransactionData.type := ''0x2''\<rparr>"
proof -
  have a: "isActivatedEIP londonConfig 1559" by simp
  have f: "fees (price gasWithFees) \<noteq> None" by simp
  have m1: "\<not> missing (maxFeePerGas feeMarketTx)" by (simp add: valid_0x64)
  have m2: "\<not> missing (TransactionData.maxPriorityFeePerGas feeMarketTx)" by (simp add: valid_0x5)
  show ?thesis by (intro conjI a f m1 m2 populate_valid_fees_sets_type [OF a f m1 m2])
qed

subsection \<open>The legacy case\<close>

text \<open>
  C3. When the ruleset has not activated EIP-1559, or the snapshot has no fee estimate,
  the output of \<open>populate\<close> has type \<^verbatim>\<open>'0x1'\<close> if EIP-2930 is activated and \<^verbatim>\<open>'0x0'\<close>
  otherwise, and its \<^verbatim>\<open>maxFeePerGas\<close> and \<^verbatim>\<open>maxPriorityFeePerGas\<close> are those of the
  input.
\<close>

theorem populate_legacy_type:
  assumes "\<not> isActivatedEIP chainConfig 1559 \<or> fees (price gas) = None"
  shows "TransactionData.type (populate rawTx chainConfig gas) =
           (if isActivatedEIP chainConfig 2930 then ''0x1'' else ''0x0'')
       \<and> maxFeePerGas (populate rawTx chainConfig gas) = maxFeePerGas rawTx
       \<and> TransactionData.maxPriorityFeePerGas (populate rawTx chainConfig gas)
           = TransactionData.maxPriorityFeePerGas rawTx"
  by (simp add: populate_legacy [OF assms])

theorem populate_legacy_type_witness:
  "\<not> isActivatedEIP berlinConfig 1559
   \<and> isActivatedEIP berlinConfig 2930
   \<and> TransactionData.type (populate feeMarketTx berlinConfig gasWithFees) = ''0x1''
   \<and> maxFeePerGas (populate feeMarketTx berlinConfig gasWithFees) = Some ''0x64''
   \<and> TransactionData.maxPriorityFeePerGas (populate feeMarketTx berlinConfig gasWithFees)
       = Some ''0x5''
   \<and> fees (price gasWithoutFees) = None
   \<and> TransactionData.type (populate bareTx londonConfig gasWithoutFees) = ''0x1''
   \<and> \<not> isActivatedEIP frontierConfig 2930
   \<and> TransactionData.type (populate bareTx frontierConfig gasWithFees) = ''0x0''
   \<and> maxFeePerGas (populate bareTx frontierConfig gasWithFees) = None
   \<and> TransactionData.maxPriorityFeePerGas (populate bareTx frontierConfig gasWithFees) = None"
proof -
  have b: "\<not> isActivatedEIP berlinConfig 1559 \<or> fees (price gasWithFees) = None" by simp
  have n: "\<not> isActivatedEIP londonConfig 1559 \<or> fees (price gasWithoutFees) = None" by simp
  have h: "\<not> isActivatedEIP frontierConfig 1559 \<or> fees (price gasWithFees) = None" by simp
  show ?thesis
    using populate_legacy_type [OF b, of feeMarketTx] populate_legacy_type [OF n, of bareTx] populate_legacy_type [OF h, of bareTx]
    by simp
qed



subsection \<open>The fee-market case with both fields missing\<close>



subsection \<open>Type and fee fields of the outputs\<close>

text \<open>
  C2 as stated fails. \<open>populate\<close> copies every field of the request and never removes
  one: a request with a gas price keeps it on a fee-market chain, where the output has
  type \<^verbatim>\<open>'0x2'\<close>, and a request with fee-market fields keeps them on a chain without
  EIP-1559, where the output has type \<^verbatim>\<open>'0x1'\<close>; \<open>londonToLegacy\<close> returns the latter
  as it is.
\<close>

theorem typeConsistent_outputs_counterexample:
  "TransactionData.type (populate legacyTx londonConfig gasWithFees) = ''0x2''
   \<and> gasPrice (populate legacyTx londonConfig gasWithFees) = Some ''0x64''
   \<and> \<not> typeConsistent (populate legacyTx londonConfig gasWithFees)
   \<and> TransactionData.type (populate feeMarketTx berlinConfig gasWithFees) = ''0x1''
   \<and> maxFeePerGas (populate feeMarketTx berlinConfig gasWithFees) = Some ''0x64''
   \<and> TransactionData.maxPriorityFeePerGas (populate feeMarketTx berlinConfig gasWithFees) = Some ''0x5''
   \<and> \<not> typeConsistent (populate feeMarketTx berlinConfig gasWithFees)
   \<and> londonToLegacy (populate feeMarketTx berlinConfig gasWithFees)
        = populate feeMarketTx berlinConfig gasWithFees"
proof -
  have a: "isActivatedEIP londonConfig 1559" by simp
  have f: "fees (price gasWithFees)
      = Some \<lparr>maxBaseFeePerGas = Some ''0x12a'', maxPriorityFeePerGas = Some ''100''\<rparr>" by simp
  have l: "\<not> isActivatedEIP berlinConfig 1559 \<or> fees (price gasWithFees) = None" by simp
  have m: "missing None" by (simp add: missing_def)
  show ?thesis
    by (simp add: populate_london [OF a f] populate_legacy [OF l] m typeConsistent_def
        valid_0x64 londonToLegacy_def Let_def)
qed

text \<open>
  C2, amended. The output of \<open>populate\<close> is type-consistent exactly when the request
  carries no fee field of the other family: no meaningful \<^verbatim>\<open>gasPrice\<close> in the fee-market
  case, neither \<^verbatim>\<open>maxFeePerGas\<close> nor \<^verbatim>\<open>maxPriorityFeePerGas\<close> in the legacy case. The
  output of \<open>londonToLegacy\<close> is type-consistent exactly when its input has type
  \<^verbatim>\<open>'0x2'\<close> or is type-consistent itself.
\<close>

theorem typeConsistent_outputs:
  "(typeConsistent (populate rawTx chainConfig gas) \<longleftrightarrow>
      (if feeMarketActive chainConfig gas
       then missing (gasPrice rawTx)
       else maxFeePerGas rawTx = None \<and> TransactionData.maxPriorityFeePerGas rawTx = None))
   \<and> (typeConsistent (londonToLegacy txData) \<longleftrightarrow>
        (TransactionData.type txData = ''0x2'' \<or> typeConsistent txData))"
proof (intro conjI)
  show "typeConsistent (populate rawTx chainConfig gas) \<longleftrightarrow>
      (if feeMarketActive chainConfig gas
       then missing (gasPrice rawTx)
       else maxFeePerGas rawTx = None \<and> TransactionData.maxPriorityFeePerGas rawTx = None)"
  proof (cases "feeMarketActive chainConfig gas")
    case True
    then show ?thesis
      by (simp add: typeConsistent_def populate_type populate_gasPrice_london)
  next
    case False
    then have l: "\<not> isActivatedEIP chainConfig 1559 \<or> fees (price gas) = None"
      by (simp add: feeMarketActive_def)
    have "maxFeePerGas (populate rawTx chainConfig gas) = maxFeePerGas rawTx"
      and "TransactionData.maxPriorityFeePerGas (populate rawTx chainConfig gas)
            = TransactionData.maxPriorityFeePerGas rawTx"
      by (simp_all add: populate_legacy [OF l])
    with False show ?thesis
      by (simp add: typeConsistent_def populate_type)
  qed
next
  show "typeConsistent (londonToLegacy txData) \<longleftrightarrow>
        (TransactionData.type txData = ''0x2'' \<or> typeConsistent txData)"
    by (simp add: typeConsistent_def londonToLegacy_def)
qed

theorem typeConsistent_outputs_witness:
  "feeMarketActive londonConfig gasWithFees
   \<and> missing (gasPrice bareTx)
   \<and> typeConsistent (populate bareTx londonConfig gasWithFees)
   \<and> \<not> feeMarketActive berlinConfig gasWithFees
   \<and> maxFeePerGas legacyTx = None \<and> TransactionData.maxPriorityFeePerGas legacyTx = None
   \<and> typeConsistent (populate legacyTx berlinConfig gasWithFees)
   \<and> TransactionData.type (populate bareTx londonConfig gasWithFees) = ''0x2''
   \<and> typeConsistent (londonToLegacy (populate bareTx londonConfig gasWithFees))"
proof -
  have a: "feeMarketActive londonConfig gasWithFees" by (simp add: feeMarketActive_def)
  have b: "\<not> feeMarketActive berlinConfig gasWithFees" by (simp add: feeMarketActive_def)
  have m: "missing (gasPrice bareTx)" by (simp add: missing_def)
  have t: "TransactionData.type (populate bareTx londonConfig gasWithFees) = ''0x2''"
    by (simp add: populate_bareTx_london)
  have 1: "typeConsistent (populate bareTx londonConfig gasWithFees)"
    using typeConsistent_outputs [of bareTx londonConfig gasWithFees bareTx] a m by simp
  have 2: "typeConsistent (populate legacyTx berlinConfig gasWithFees)"
    using typeConsistent_outputs [of legacyTx berlinConfig gasWithFees bareTx] b by simp
  have 3: "typeConsistent (londonToLegacy (populate bareTx londonConfig gasWithFees))"
    using typeConsistent_outputs [of bareTx londonConfig gasWithFees "populate bareTx londonConfig gasWithFees"] t
    by simp
  show ?thesis using a b m t 1 2 3 by simp
qed

subsection \<open>Idempotence\<close>

text \<open>
  C9. If the output of \<open>populate\<close> has its active fee fields filled with valid
  hexadecimal (\<^verbatim>\<open>maxFeePerGas\<close> and \<^verbatim>\<open>maxPriorityFeePerGas\<close> in the fee-market case,
  \<^verbatim>\<open>gasPrice\<close> in the legacy case), a second \<open>populate\<close> with the same ruleset and
  snapshot returns that output unchanged.
\<close>

theorem populate_idempotent:
  assumes "if feeMarketActive chainConfig gas
           then \<not> missing (maxFeePerGas (populate rawTx chainConfig gas))
                \<and> \<not> missing (TransactionData.maxPriorityFeePerGas (populate rawTx chainConfig gas))
           else \<not> missing (gasPrice (populate rawTx chainConfig gas))"
  shows "populate (populate rawTx chainConfig gas) chainConfig gas = populate rawTx chainConfig gas"
proof (cases "feeMarketActive chainConfig gas")
  case True
  then obtain gasFees where a: "isActivatedEIP chainConfig 1559"
    and f: "fees (price gas) = Some gasFees"
    by (auto simp: feeMarketActive_def)
  have t: "TransactionData.type (populate rawTx chainConfig gas) = ''0x2''"
    using True by (simp add: populate_type)
  have "populate (populate rawTx chainConfig gas) chainConfig gas
        = (populate rawTx chainConfig gas)\<lparr>TransactionData.type := ''0x2''\<rparr>"
    using assms True by (subst populate_london [OF a f]) simp
  also have "\<dots> = populate rawTx chainConfig gas"
    using t by (rule update_type_same)
  finally show ?thesis .
next
  case False
  then have l: "\<not> isActivatedEIP chainConfig 1559 \<or> fees (price gas) = None"
    by (simp add: feeMarketActive_def)
  let ?t = "if isActivatedEIP chainConfig 2930 then ''0x1'' else ''0x0''"
  have t: "TransactionData.type (populate rawTx chainConfig gas) = ?t"
    using False by (simp add: populate_type)
  have "populate (populate rawTx chainConfig gas) chainConfig gas
        = (populate rawTx chainConfig gas)\<lparr>TransactionData.type := ?t\<rparr>"
    using assms False by (subst populate_legacy [OF l]) simp
  also have "\<dots> = populate rawTx chainConfig gas"
    using t by (rule update_type_same)
  finally show ?thesis .
qed

theorem populate_idempotent_witness:
  "feeMarketActive londonConfig gasWithFees
   \<and> \<not> missing (maxFeePerGas (populate bareTx londonConfig gasWithFees))
   \<and> \<not> missing (TransactionData.maxPriorityFeePerGas (populate bareTx londonConfig gasWithFees))
   \<and> populate (populate bareTx londonConfig gasWithFees) londonConfig gasWithFees
       = populate bareTx londonConfig gasWithFees
   \<and> \<not> feeMarketActive berlinConfig gasWithFees
   \<and> \<not> missing (gasPrice (populate bareTx berlinConfig gasWithFees))
   \<and> populate (populate bareTx berlinConfig gasWithFees) berlinConfig gasWithFees
       = populate bareTx berlinConfig gasWithFees"
proof -
  have a: "feeMarketActive londonConfig gasWithFees" by (simp add: feeMarketActive_def)
  have b: "\<not> feeMarketActive berlinConfig gasWithFees" by (simp add: feeMarketActive_def)
  have v1: "\<not> missing (maxFeePerGas (populate bareTx londonConfig gasWithFees))"
    by (simp add: populate_bareTx_london valid_0x18e)
  have v2: "\<not> missing (TransactionData.maxPriorityFeePerGas (populate bareTx londonConfig gasWithFees))"
    by (simp add: populate_bareTx_london valid_0x64)
  have v3: "\<not> missing (gasPrice (populate bareTx berlinConfig gasWithFees))"
    by (simp add: populate_bareTx_berlin valid_0x3b)
  have 1: "populate (populate bareTx londonConfig gasWithFees) londonConfig gasWithFees
       = populate bareTx londonConfig gasWithFees"
    using a v1 v2 by (intro populate_idempotent) simp
  have 2: "populate (populate bareTx berlinConfig gasWithFees) berlinConfig gasWithFees
       = populate bareTx berlinConfig gasWithFees"
    using b v3 by (intro populate_idempotent) simp
  show ?thesis by (intro conjI a b v1 v2 v3 1 2)
qed

subsection \<open>The fields \<^verbatim>\<open>populate\<close> leaves alone, and its argument\<close>

lemma store_read_old: "rawTx < length h \<Longrightarrow> (h @ [x]) ! rawTx = h ! rawTx"
  by (simp add: nth_append)

lemma populate_store_eq:
  assumes "rawTx < length h"
  shows "populate_store h rawTx chainConfig gas
           = (h @ [populate (h ! rawTx) chainConfig gas], length h)"
proof (cases "if isActivatedEIP chainConfig 1559 then fees (price gas) else None")
  case None
  show ?thesis
  proof (cases "\<not> truthy (gasPrice (h ! rawTx)) \<or> isNaN (parseInt (gasPrice (h ! rawTx)) 16)")
    case True
    then show ?thesis
      unfolding populate_store_def populate_def None Let_def
      by (simp add: store_read_old [OF assms] del: list_update_append1 length_append)
  next
    case False
    then show ?thesis
      unfolding populate_store_def populate_def None Let_def
      by (simp add: store_read_old [OF assms])
  qed
next
  case (Some gasFees)
  let ?mf = "\<not> truthy (maxFeePerGas (h ! rawTx)) \<or> isNaN (parseInt (maxFeePerGas (h ! rawTx)) 16)"
  let ?mp = "\<not> truthy (TransactionData.maxPriorityFeePerGas (h ! rawTx))
             \<or> isNaN (parseInt (TransactionData.maxPriorityFeePerGas (h ! rawTx)) 16)"
  consider (both) "?mf" "?mp" | (fee) "?mf" "\<not> ?mp" | (prio) "\<not> ?mf" "?mp" | (none) "\<not> ?mf" "\<not> ?mp"
    by blast
  then show ?thesis
  proof cases
    case both
    then show ?thesis
      unfolding populate_store_def populate_def Some Let_def
      by (simp add: store_read_old [OF assms])
  next
    case fee
    then show ?thesis
      unfolding populate_store_def populate_def Some Let_def
      by (simp add: store_read_old [OF assms])
  next
    case prio
    then show ?thesis
      unfolding populate_store_def populate_def Some Let_def
      by (simp add: store_read_old [OF assms])
  next
    case none
    then show ?thesis
      unfolding populate_store_def populate_def Some Let_def
      by (simp add: store_read_old [OF assms])
  qed
qed

lemma populate_other_fields:
  "chainId (populate rawTx chainConfig gas) = chainId rawTx
   \<and> nonce (populate rawTx chainConfig gas) = nonce rawTx
   \<and> to (populate rawTx chainConfig gas) = to rawTx
   \<and> value (populate rawTx chainConfig gas) = value rawTx
   \<and> data (populate rawTx chainConfig gas) = data rawTx
   \<and> gasLimit (populate rawTx chainConfig gas) = gasLimit rawTx
   \<and> TransactionData.more (populate rawTx chainConfig gas) = TransactionData.more rawTx"
proof (cases "feeMarketActive chainConfig gas")
  case True
  then obtain gasFees where a: "isActivatedEIP chainConfig 1559"
    and f: "fees (price gas) = Some gasFees"
    by (auto simp: feeMarketActive_def)
  show ?thesis by (simp add: populate_london [OF a f] Let_def)
next
  case False
  then have l: "\<not> isActivatedEIP chainConfig 1559 \<or> fees (price gas) = None"
    by (simp add: feeMarketActive_def)
  show ?thesis by (simp add: populate_legacy [OF l])
qed

text \<open>
  C10. \<open>populate\<close> returns a new object and changes no object that existed before
  the call, its argument among them; the new object is what \<open>populate\<close> computes from
  the argument and agrees with it on \<^verbatim>\<open>chainId\<close>, \<^verbatim>\<open>nonce\<close>, \<^verbatim>\<open>to\<close>, \<^verbatim>\<open>value\<close>,
  \<^verbatim>\<open>data\<close>, \<^verbatim>\<open>gasLimit\<close> and on every property beyond the named ones, that is on all
  fields but \<^verbatim>\<open>type\<close>, \<^verbatim>\<open>gasPrice\<close>, \<^verbatim>\<open>maxFeePerGas\<close>, \<^verbatim>\<open>maxPriorityFeePerGas\<close> and
  \<^verbatim>\<open>gasFeesSource\<close>.
\<close>

theorem populate_store_fresh_copy:
  assumes "rawTx < length h"
    and "populate_store h rawTx chainConfig gas = (h', txData)"
  shows "txData = length h \<and> txData \<noteq> rawTx
       \<and> length h' = Suc (length h)
       \<and> take (length h) h' = h
       \<and> h' ! rawTx = h ! rawTx
       \<and> h' ! txData = populate (h ! rawTx) chainConfig gas
       \<and> chainId (h' ! txData) = chainId (h ! rawTx)
       \<and> nonce (h' ! txData) = nonce (h ! rawTx)
       \<and> to (h' ! txData) = to (h ! rawTx)
       \<and> value (h' ! txData) = value (h ! rawTx)
       \<and> data (h' ! txData) = data (h ! rawTx)
       \<and> gasLimit (h' ! txData) = gasLimit (h ! rawTx)
       \<and> TransactionData.more (h' ! txData) = TransactionData.more (h ! rawTx)"
proof -
  from assms have h': "h' = h @ [populate (h ! rawTx) chainConfig gas]"
    and t: "txData = length h"
    by (simp_all add: populate_store_eq)
  show ?thesis
    using assms(1) populate_other_fields [of "h ! rawTx" chainConfig gas]
    by (simp add: h' t nth_append)
qed

theorem populate_store_fresh_copy_witness:
  "(0::nat) < length [bareTx]
   \<and> populate_store [bareTx] 0 londonConfig gasWithFees
       = ([bareTx, populate bareTx londonConfig gasWithFees], 1)
   \<and> [bareTx, populate bareTx londonConfig gasWithFees] ! 0 = bareTx
   \<and> chainId (populate bareTx londonConfig gasWithFees) = ''0x1''
   \<and> nonce (populate bareTx londonConfig gasWithFees) = Some ''0x7''
   \<and> to (populate bareTx londonConfig gasWithFees) = Some ''0xabc''
   \<and> value (populate bareTx londonConfig gasWithFees) = Some ''0x1''
   \<and> data (populate bareTx londonConfig gasWithFees) = None
   \<and> gasLimit (populate bareTx londonConfig gasWithFees) = Some ''0x5208''"
proof -
  have l: "(0::nat) < length [bareTx]" by simp
  obtain h' txData where r: "populate_store [bareTx] 0 londonConfig gasWithFees = (h', txData)"
    by (cases "populate_store [bareTx] 0 londonConfig gasWithFees")
  note c = populate_store_fresh_copy [OF l r]
  from c have t: "txData = 1" by simp
  from c have len: "length h' = 2" by simp
  from c have h0: "h' ! 0 = bareTx" by simp
  from c t have h1: "h' ! 1 = populate bareTx londonConfig gasWithFees" by simp
  have h': "h' = [bareTx, populate bareTx londonConfig gasWithFees]"
    using len h0 h1 by (intro nth_equalityI) (auto simp: less_Suc_eq numeral_2_eq_2)
  show ?thesis using c r t h' by simp
qed

section \<open>Properties of \<^verbatim>\<open>londonToLegacy\<close>\<close>

text \<open>
  C6. For a transaction of type \<^verbatim>\<open>'0x2'\<close>, \<open>londonToLegacy\<close> yields type \<^verbatim>\<open>'0x0'\<close>, a
  \<^verbatim>\<open>gasPrice\<close> equal to the original \<^verbatim>\<open>maxFeePerGas\<close>, no \<^verbatim>\<open>maxFeePerGas\<close> and no
  \<^verbatim>\<open>maxPriorityFeePerGas\<close> property, and every other property as in the input; for any
  other type it is the identity.
\<close>

theorem londonToLegacy_contract:
  "(TransactionData.type txData = ''0x2'' \<longrightarrow>
      TransactionData.type (londonToLegacy txData) = ''0x0''
      \<and> gasPrice (londonToLegacy txData) = maxFeePerGas txData
      \<and> maxFeePerGas (londonToLegacy txData) = None
      \<and> TransactionData.maxPriorityFeePerGas (londonToLegacy txData) = None
      \<and> chainId (londonToLegacy txData) = chainId txData
      \<and> nonce (londonToLegacy txData) = nonce txData
      \<and> to (londonToLegacy txData) = to txData
      \<and> value (londonToLegacy txData) = value txData
      \<and> data (londonToLegacy txData) = data txData
      \<and> gasLimit (londonToLegacy txData) = gasLimit txData
      \<and> gasFeesSource (londonToLegacy txData) = gasFeesSource txData
      \<and> TransactionData.more (londonToLegacy txData) = TransactionData.more txData)
   \<and> (TransactionData.type txData \<noteq> ''0x2'' \<longrightarrow> londonToLegacy txData = txData)"
  by (simp add: londonToLegacy_def)

theorem londonToLegacy_contract_witness:
  "TransactionData.type
     \<lparr>chainId = ''0x1'', type = ''0x2'', nonce = Some ''0x7'', to = Some ''0xabc'',
      value = Some ''0x0'', data = Some ''0x'', gasLimit = Some ''0x5208'', gasPrice = None,
      maxFeePerGas = Some ''0x64'', maxPriorityFeePerGas = Some ''0x5'',
      gasFeesSource = Dapp\<rparr> = ''0x2''
   \<and> londonToLegacy
     \<lparr>chainId = ''0x1'', type = ''0x2'', nonce = Some ''0x7'', to = Some ''0xabc'',
      value = Some ''0x0'', data = Some ''0x'', gasLimit = Some ''0x5208'', gasPrice = None,
      maxFeePerGas = Some ''0x64'', maxPriorityFeePerGas = Some ''0x5'',
      gasFeesSource = Dapp\<rparr>
     = \<lparr>chainId = ''0x1'', type = ''0x0'', nonce = Some ''0x7'', to = Some ''0xabc'',
      value = Some ''0x0'', data = Some ''0x'', gasLimit = Some ''0x5208'',
      gasPrice = Some ''0x64'', maxFeePerGas = None, maxPriorityFeePerGas = None,
      gasFeesSource = Dapp\<rparr>
   \<and> TransactionData.type
     \<lparr>chainId = ''0x1'', type = ''0x1'', nonce = None, to = None,
      value = None, data = None, gasLimit = None, gasPrice = Some ''0x64'',
      maxFeePerGas = None, maxPriorityFeePerGas = None, gasFeesSource = Dapp\<rparr> \<noteq> ''0x2''
   \<and> londonToLegacy
     \<lparr>chainId = ''0x1'', type = ''0x1'', nonce = None, to = None,
      value = None, data = None, gasLimit = None, gasPrice = Some ''0x64'',
      maxFeePerGas = None, maxPriorityFeePerGas = None, gasFeesSource = Dapp\<rparr>
     = \<lparr>chainId = ''0x1'', type = ''0x1'', nonce = None, to = None,
      value = None, data = None, gasLimit = None, gasPrice = Some ''0x64'',
      maxFeePerGas = None, maxPriorityFeePerGas = None, gasFeesSource = Dapp\<rparr>"
  using londonToLegacy_contract
    [of "\<lparr>chainId = ''0x1'', type = ''0x2'', nonce = Some ''0x7'', to = Some ''0xabc'',
      value = Some ''0x0'', data = Some ''0x'', gasLimit = Some ''0x5208'', gasPrice = None,
      maxFeePerGas = Some ''0x64'', maxPriorityFeePerGas = Some ''0x5'',
      gasFeesSource = Dapp\<rparr>"]
    londonToLegacy_contract
    [of "\<lparr>chainId = ''0x1'', type = ''0x1'', nonce = None, to = None,
      value = None, data = None, gasLimit = None, gasPrice = Some ''0x64'',
      maxFeePerGas = None, maxPriorityFeePerGas = None, gasFeesSource = Dapp\<rparr>"]
  by (simp add: TransactionData.equality)

section \<open>Properties of \<^verbatim>\<open>signerCompatibility\<close>\<close>




section \<open>Properties of \<^verbatim>\<open>classifyTransaction\<close>\<close>

text \<open>
  C8. For a request with a first parameter: without a \<^verbatim>\<open>to\<close> address the class is
  \<open>CONTRACT_DEPLOY\<close>, whatever the data and the recipient type; otherwise it is
  \<open>SEND_DATA\<close> when the recipient type is \<^verbatim>\<open>'external'\<close> and the data is longer than the
  empty marker \<^verbatim>\<open>'0x'\<close>; otherwise \<open>CONTRACT_CALL\<close> when the data is non-zero hex and
  the recipient type is not \<^verbatim>\<open>'external'\<close>; otherwise \<open>NATIVE_TRANSFER\<close>.
\<close>

theorem classifyTransaction_precedence:
  assumes "params (payload request) = p # ps"
  shows "(\<not> truthy (to p) \<longrightarrow> classifyTransaction isNonZeroHex request = Inr CONTRACT_DEPLOY)
    \<and> (truthy (to p) \<and> recipientType request = Some ''external''
         \<and> length (case data p of None \<Rightarrow> ''0x'' | Some d \<Rightarrow> d) > 2 \<longrightarrow>
         classifyTransaction isNonZeroHex request = Inr SEND_DATA)
    \<and> (truthy (to p)
         \<and> \<not> (recipientType request = Some ''external''
               \<and> length (case data p of None \<Rightarrow> ''0x'' | Some d \<Rightarrow> d) > 2)
         \<and> isNonZeroHex (case data p of None \<Rightarrow> ''0x'' | Some d \<Rightarrow> d)
         \<and> recipientType request \<noteq> Some ''external'' \<longrightarrow>
         classifyTransaction isNonZeroHex request = Inr CONTRACT_CALL)
    \<and> (truthy (to p)
         \<and> \<not> (recipientType request = Some ''external''
               \<and> length (case data p of None \<Rightarrow> ''0x'' | Some d \<Rightarrow> d) > 2)
         \<and> \<not> (isNonZeroHex (case data p of None \<Rightarrow> ''0x'' | Some d \<Rightarrow> d)
               \<and> recipientType request \<noteq> Some ''external'') \<longrightarrow>
         classifyTransaction isNonZeroHex request = Inr NATIVE_TRANSFER)"
  using assms by (auto simp: classifyTransaction_def Let_def)

theorem classifyTransaction_precedence_witness:
  "params (payload (sampleRequest None (Some ''0xabcd'') ''external'')) = [bareTx\<lparr>to := None, data := Some ''0xabcd''\<rparr>]
   \<and> classifyTransaction nonZeroHex (sampleRequest None (Some ''0xabcd'') ''external'') = Inr CONTRACT_DEPLOY
   \<and> classifyTransaction nonZeroHex (sampleRequest (Some ''0xabc'') (Some ''0xabcd'') ''external'') = Inr SEND_DATA
   \<and> classifyTransaction nonZeroHex (sampleRequest (Some ''0xabc'') (Some ''0xabcd'') ''contract'') = Inr CONTRACT_CALL
   \<and> classifyTransaction nonZeroHex (sampleRequest (Some ''0xabc'') (Some ''0x'') ''contract'') = Inr NATIVE_TRANSFER
   \<and> classifyTransaction nonZeroHex (sampleRequest (Some ''0xabc'') None ''external'') = Inr NATIVE_TRANSFER"
proof -
  have c1: "classifyTransaction nonZeroHex (sampleRequest None (Some ''0xabcd'') ''external'') = Inr CONTRACT_DEPLOY"
    using classifyTransaction_precedence [where request = "sampleRequest None (Some ''0xabcd'') ''external''"
        and p = "bareTx\<lparr>to := None, data := (Some ''0xabcd'')\<rparr>" and ps = "[]"
        and isNonZeroHex = nonZeroHex]
    by (simp add: truthy_def)
  have c2: "classifyTransaction nonZeroHex (sampleRequest (Some ''0xabc'') (Some ''0xabcd'') ''external'') = Inr SEND_DATA"
    using classifyTransaction_precedence [where request = "sampleRequest (Some ''0xabc'') (Some ''0xabcd'') ''external''"
        and p = "bareTx\<lparr>to := (Some ''0xabc''), data := (Some ''0xabcd'')\<rparr>" and ps = "[]"
        and isNonZeroHex = nonZeroHex]
    by (simp add: truthy_def)
  have c3: "classifyTransaction nonZeroHex (sampleRequest (Some ''0xabc'') (Some ''0xabcd'') ''contract'') = Inr CONTRACT_CALL"
    using classifyTransaction_precedence [where request = "sampleRequest (Some ''0xabc'') (Some ''0xabcd'') ''contract''"
        and p = "bareTx\<lparr>to := (Some ''0xabc''), data := (Some ''0xabcd'')\<rparr>" and ps = "[]"
        and isNonZeroHex = nonZeroHex]
    by (simp add: truthy_def)
  have c4: "classifyTransaction nonZeroHex (sampleRequest (Some ''0xabc'') (Some ''0x'') ''contract'') = Inr NATIVE_TRANSFER"
    using classifyTransaction_precedence [where request = "sampleRequest (Some ''0xabc'') (Some ''0x'') ''contract''"
        and p = "bareTx\<lparr>to := (Some ''0xabc''), data := (Some ''0x'')\<rparr>" and ps = "[]"
        and isNonZeroHex = nonZeroHex]
    by (simp add: truthy_def)
  have c5: "classifyTransaction nonZeroHex (sampleRequest (Some ''0xabc'') None ''external'') = Inr NATIVE_TRANSFER"
    using classifyTransaction_precedence [where request = "sampleRequest (Some ''0xabc'') None ''external''"
        and p = "bareTx\<lparr>to := (Some ''0xabc''), data := None\<rparr>" and ps = "[]"
        and isNonZeroHex = nonZeroHex]
    by (simp add: truthy_def)
  show ?thesis using c1 c2 c3 c4 c5 by simp
qed

end

